theory Spec2Isabelle
  imports Complex_Main
begin

section \<open>Numbers\<close>

text \<open>
  The hour values of the dashboard are JavaScript numbers. They are modelled as exact
  real numbers: every duration is a whole number of milliseconds divided by 3600000, and the
  only rounding the source performs is \<^verbatim>\<open>Math.round(x * 100) / 100\<close>.
\<close>

type_synonym hours = real

text \<open>\<^verbatim>\<open>Math.round\<close>: the nearest integer, a tie going up.\<close>

definition Math_round :: "real \<Rightarrow> int" where
  "Math_round x = \<lfloor>x + 1 / 2\<rfloor>"

text \<open>\<^verbatim>\<open>Math.max(0, x)\<close>.\<close>

definition Math_max0 :: "real \<Rightarrow> real" where
  "Math_max0 x = max 0 x"

text \<open>\<^verbatim>\<open>Math.round(x * 100) / 100\<close>, the rounding to two decimals of every reported value.\<close>

definition round2 :: "real \<Rightarrow> real" where
  "round2 x = of_int (Math_round (x * 100)) / 100"

section \<open>Times of day and \<^verbatim>\<open>calculateHoursDifference\<close>\<close>

text \<open>
  A time of day is what the strings \<^verbatim>\<open>HH:mm\<close> and \<^verbatim>\<open>HH:mm:ss\<close> denote
  (\<^verbatim>\<open>shift.jam_masuk\<close>, \<^verbatim>\<open>shift.jam_keluar\<close>, and the output of
  \<^verbatim>\<open>format(d, 'HH:mm')\<close>). The times the views receive are valid: the shift times
  are values of the time type of the database, the others are formatted from a date.
  A text that is no time of day would make the date invalid and the difference not a
  number; that case is outside the model.
\<close>

record time_of_day =
  tod_hour :: nat
  tod_minute :: nat
  tod_second :: nat

definition valid_time :: "time_of_day \<Rightarrow> bool" where
  "valid_time t = (tod_hour t < 24 \<and> tod_minute t < 60 \<and> tod_second t < 60)"

text \<open>Milliseconds after midnight.\<close>

definition ms_of_day :: "time_of_day \<Rightarrow> int" where
  "ms_of_day t = int (((tod_hour t * 60 + tod_minute t) * 60 + tod_second t) * 1000)"

text \<open>
  \<^verbatim>\<open>new Date(`2000-01-01 ${t}`).getTime()\<close>: the reference day 2000-01-01 at the time
  \<open>t\<close>, in milliseconds (offset of the reference midnight: 946684800000).
\<close>

definition date2000 :: "time_of_day \<Rightarrow> int" where
  "date2000 t = 946684800000 + ms_of_day t"

text \<open>\<^verbatim>\<open>end.setDate(end.getDate() + 1)\<close>: the same time on the next day.\<close>

definition setDate_next :: "int \<Rightarrow> int" where
  "setDate_next d = d + 24 * 60 * 60 * 1000"

definition calculateHoursDifference :: "time_of_day \<Rightarrow> time_of_day \<Rightarrow> hours" where
  "calculateHoursDifference startTime endTime =
     (let start = date2000 startTime;
          end0 = date2000 endTime;
          end1 = (if end0 < start then setDate_next end0 else end0);
          diffMs = end1 - start
      in of_int diffMs / (1000 * 60 * 60))"

text \<open>A number of milliseconds as hours, the unit of every reported value.\<close>

definition ms_to_hours :: "int \<Rightarrow> hours" where
  "ms_to_hours n = of_int n / 3600000"

section \<open>Timestamps and the calendar\<close>

text \<open>
  A timestamp (\<^verbatim>\<open>waktu\<close>, \<^verbatim>\<open>clock_out_time\<close>) is read by the views in the viewer's
  wall-clock time only, through \<^verbatim>\<open>format(new Date(ts), 'yyyy-MM-dd')\<close> and
  \<^verbatim>\<open>format(new Date(ts), 'HH:mm')\<close>. It is modelled as the number of milliseconds of
  wall-clock time since 1970-01-01 00:00, and a calendar day as the number of days since
  1970-01-01. Two days have the same \<^verbatim>\<open>yyyy-MM-dd\<close> text exactly when they are the same
  day, so a day stands for its own formatted text.
\<close>

type_synonym timestamp = int
type_synonym day = int

text \<open>\<^verbatim>\<open>format(new Date(ts), 'yyyy-MM-dd')\<close>.\<close>

definition format_date :: "timestamp \<Rightarrow> day" where
  "format_date ts = ts div 86400000"

text \<open>\<^verbatim>\<open>format(new Date(ts), 'HH:mm')\<close>: hour and minute, the seconds dropped.\<close>

definition format_HHmm :: "timestamp \<Rightarrow> time_of_day" where
  "format_HHmm ts =
     (let m = ts mod 86400000
      in \<lparr>tod_hour = nat (m div 3600000),
          tod_minute = nat ((m mod 3600000) div 60000),
          tod_second = 0\<rparr>)"

text \<open>
  \<^verbatim>\<open>new Date(record.waktu)\<close>. A null timestamp gives the epoch; the queries of all three
  views filter on \<^verbatim>\<open>waktu\<close>, so a fetched row always carries one.
\<close>

definition new_Date :: "timestamp option \<Rightarrow> timestamp" where
  "new_Date w = (case w of None \<Rightarrow> 0 | Some ts \<Rightarrow> ts)"

text \<open>
  The functions of the date library the views call, at the granularity of days.
  \<^verbatim>\<open>getDay\<close> is 0 on a Sunday and 6 on a Saturday; 1970-01-01 was a Thursday.
\<close>

definition getDay :: "day \<Rightarrow> int" where
  "getDay d = (d + 4) mod 7"

definition isWeekend :: "day \<Rightarrow> bool" where
  "isWeekend d = (getDay d = 0 \<or> getDay d = 6)"

definition startOfWeek :: "day \<Rightarrow> day" where
  "startOfWeek d = d - getDay d"

definition endOfWeek :: "day \<Rightarrow> day" where
  "endOfWeek d = d + (6 - getDay d)"

definition eachDayOfInterval :: "day \<Rightarrow> day \<Rightarrow> day list" where
  "eachDayOfInterval s e = [s..e]"

text \<open>The month on display (\<^verbatim>\<open>currentMonth\<close>): a year and a month from 1 to 12.\<close>

record month_ref =
  mr_year :: int
  mr_month :: nat

definition isLeapYear :: "int \<Rightarrow> bool" where
  "isLeapYear y = (y mod 400 = 0 \<or> (y mod 4 = 0 \<and> y mod 100 \<noteq> 0))"

definition getDaysInMonth :: "month_ref \<Rightarrow> nat" where
  "getDaysInMonth cm =
     (if mr_month cm = 2 then (if isLeapYear (mr_year cm) then 29 else 28)
      else if mr_month cm \<in> {4, 6, 9, 11} then 30 else 31)"

text \<open>The day number of a civil date in the proleptic Gregorian calendar.\<close>

definition days_from_civil :: "int \<Rightarrow> nat \<Rightarrow> nat \<Rightarrow> day" where
  "days_from_civil y m d =
     (let y1 = (if m \<le> 2 then y - 1 else y);
          era = y1 div 400;
          yoe = y1 mod 400;
          mp = (if m > 2 then int m - 3 else int m + 9);
          doy = (153 * mp + 2) div 5 + int d - 1;
          doe = yoe * 365 + yoe div 4 - yoe div 100 + doy
      in era * 146097 + doe - 719468)"

definition startOfMonth :: "month_ref \<Rightarrow> day" where
  "startOfMonth cm = days_from_civil (mr_year cm) (mr_month cm) 1"

definition endOfMonth :: "month_ref \<Rightarrow> day" where
  "endOfMonth cm = days_from_civil (mr_year cm) (mr_month cm) (getDaysInMonth cm)"

section \<open>Rows of the remote tables\<close>

text \<open>
  A row of \<^verbatim>\<open>absensi\<close> with its joined \<^verbatim>\<open>shift\<close> and \<^verbatim>\<open>profiles\<close>. A field
  that the source tests for truthiness is an option: \<open>None\<close> is null (or the empty string).
\<close>

record shift_row =
  nama_shift :: string
  jam_masuk :: "time_of_day option"
  jam_keluar :: "time_of_day option"

record absensi_row =
  user_id :: string
  waktu :: "timestamp option"
  clock_out_time :: "timestamp option"
  shift :: "shift_row option"
  profiles_name :: "string option"

record profile =
  profile_id :: string
  profile_name :: string

text \<open>The answer of a remote query: \<^verbatim>\<open>{ data, error }\<close>.\<close>

record 'a query_result =
  q_data :: "'a option"
  q_error :: "string option"

section \<open>The hours of one day\<close>

text \<open>
  The body of \<^verbatim>\<open>dayAttendance.forEach(record => ...)\<close>, the same text in
  \<^verbatim>\<open>fetchCalendarData\<close> and in \<^verbatim>\<open>fetchGridData\<close>, on the pair of accumulators
  \<^verbatim>\<open>(expectedHours, actualHours)\<close>.
\<close>

definition addRecordHours :: "absensi_row \<Rightarrow> hours \<times> hours \<Rightarrow> hours \<times> hours" where
  "addRecordHours record acc =
     (case acc of (expectedHours, actualHours) \<Rightarrow>
       (case shift record of
          None \<Rightarrow> (expectedHours, actualHours)
        | Some sh \<Rightarrow>
           (case jam_masuk sh of
              None \<Rightarrow> (expectedHours, actualHours)
            | Some masuk \<Rightarrow>
               (case jam_keluar sh of
                  None \<Rightarrow> (expectedHours, actualHours)
                | Some keluar \<Rightarrow>
                   (let expectedHours1 = expectedHours + calculateHoursDifference masuk keluar
                    in case waktu record of
                         None \<Rightarrow> (expectedHours1, actualHours)
                       | Some w \<Rightarrow>
                          (case clock_out_time record of
                             None \<Rightarrow> (expectedHours1, actualHours)
                           | Some c \<Rightarrow>
                              (expectedHours1,
                               actualHours
                                 + calculateHoursDifference (format_HHmm w) (format_HHmm c))))))))"

definition dayHours :: "absensi_row list \<Rightarrow> hours \<times> hours" where
  "dayHours dayAttendance = fold addRecordHours dayAttendance (0, 0)"

text \<open>
  The filter that selects the rows of one day:
  \<^verbatim>\<open>format(new Date(record.waktu), 'yyyy-MM-dd') === format(date, 'yyyy-MM-dd')\<close>.
\<close>

definition recordOnDay :: "day \<Rightarrow> absensi_row \<Rightarrow> bool" where
  "recordOnDay d record = (format_date (new_Date (waktu record)) = d)"

definition dayAttendanceOn :: "day \<Rightarrow> absensi_row list \<Rightarrow> absensi_row list" where
  "dayAttendanceOn d attendanceData = filter (recordOnDay d) attendanceData"

section \<open>The calendar view: \<^verbatim>\<open>fetchCalendarData\<close>\<close>

datatype day_status = Complete | Missing | Overtime | NoAttendance

record DayData =
  date :: day
  expectedHours :: hours
  actualHours :: hours
  missingHours :: hours
  overtimeHours :: hours
  hasAttendance :: bool
  status :: day_status
  attendanceRecords :: "absensi_row list"

text \<open>The callback of \<^verbatim>\<open>calendarDays.map(date => ...)\<close>.\<close>

definition processDay :: "absensi_row list \<Rightarrow> day \<Rightarrow> DayData" where
  "processDay attendanceData d =
     (let dayAttendance = dayAttendanceOn d attendanceData;
          (expectedHours0, actualHours0) = dayHours dayAttendance;
          missingHours0 = Math_max0 (expectedHours0 - actualHours0);
          overtimeHours0 = Math_max0 (actualHours0 - expectedHours0);
          hasAttendance0 = (length dayAttendance > 0);
          status0 = (if hasAttendance0
                     then (if missingHours0 > 0 then Missing
                           else if overtimeHours0 > 0 then Overtime
                           else Complete)
                     else NoAttendance)
      in \<lparr>date = d,
          expectedHours = round2 expectedHours0,
          actualHours = round2 actualHours0,
          missingHours = round2 missingHours0,
          overtimeHours = round2 overtimeHours0,
          hasAttendance = hasAttendance0,
          status = status0,
          attendanceRecords = dayAttendance\<rparr>)"

text \<open>
  The state of the calendar view and one run of \<^verbatim>\<open>fetchCalendarData\<close>, given the answer
  of the remote query. A null \<^verbatim>\<open>data\<close> is read as the empty list
  (\<^verbatim>\<open>attendanceData || []\<close>).
\<close>

record calendar_state =
  currentMonth :: month_ref
  calendarData :: "DayData list"
  loading :: bool
  selectedUser :: string

definition orEmpty :: "'a list option \<Rightarrow> 'a list" where
  "orEmpty xs = (case xs of None \<Rightarrow> [] | Some ys \<Rightarrow> ys)"

definition fetchCalendarData ::
    "absensi_row list query_result \<Rightarrow> calendar_state \<Rightarrow> calendar_state" where
  "fetchCalendarData res st =
     (if selectedUser st = [] \<or> selectedUser st = ''all'' then st
      else
        (let st1 = st\<lparr>loading := True\<rparr>;
             monthStart = startOfMonth (currentMonth st1);
             monthEnd = endOfMonth (currentMonth st1)
         in case q_error res of
              Some e \<Rightarrow> st1\<lparr>loading := False\<rparr>
            | None \<Rightarrow>
               (let calendarStart = startOfWeek monthStart;
                    calendarEnd = endOfWeek monthEnd;
                    calendarDays = eachDayOfInterval calendarStart calendarEnd;
                    processedData = map (processDay (orEmpty (q_data res))) calendarDays
                in st1\<lparr>calendarData := processedData, loading := False\<rparr>)))"

section \<open>The daily grid: \<^verbatim>\<open>fetchGridData\<close>\<close>

record DailyHourData =
  dh_date :: day
  dh_expectedHours :: hours
  dh_actualHours :: hours
  dh_missingHours :: hours
  dh_hasAttendance :: bool

record UserDailyData =
  userId :: string
  userName :: string
  dailyData :: "day \<rightharpoonup> DailyHourData"
  totalMissingHours :: hours
  totalExpectedHours :: hours
  totalActualHours :: hours
  workingDays :: nat

text \<open>
  The variables that \<^verbatim>\<open>workingDaysInMonth.forEach(date => ...)\<close> updates for one user.
\<close>

record user_totals =
  ut_dailyData :: "day \<rightharpoonup> DailyHourData"
  ut_totalMissingHours :: hours
  ut_totalExpectedHours :: hours
  ut_totalActualHours :: hours
  ut_workingDaysCount :: nat

definition initial_totals :: user_totals where
  "initial_totals =
     \<lparr>ut_dailyData = Map.empty, ut_totalMissingHours = 0, ut_totalExpectedHours = 0,
      ut_totalActualHours = 0, ut_workingDaysCount = 0\<rparr>"

text \<open>The body of that loop, for the day \<open>d\<close>.\<close>

definition processWorkingDay :: "absensi_row list \<Rightarrow> day \<Rightarrow> user_totals \<Rightarrow> user_totals" where
  "processWorkingDay userAttendance d acc =
     (let dayAttendance = dayAttendanceOn d userAttendance;
          (expectedHours0, actualHours0) = dayHours dayAttendance;
          missingHours0 = Math_max0 (expectedHours0 - actualHours0);
          hasAttendance0 = (length dayAttendance > 0);
          acc1 = (if hasAttendance0
                  then acc\<lparr>ut_workingDaysCount := ut_workingDaysCount acc + 1,
                           ut_totalExpectedHours := ut_totalExpectedHours acc + expectedHours0,
                           ut_totalActualHours := ut_totalActualHours acc + actualHours0,
                           ut_totalMissingHours := ut_totalMissingHours acc + missingHours0\<rparr>
                  else acc)
      in acc1\<lparr>ut_dailyData := (ut_dailyData acc1)(d \<mapsto>
                 \<lparr>dh_date = d,
                  dh_expectedHours = round2 expectedHours0,
                  dh_actualHours = round2 actualHours0,
                  dh_missingHours = round2 missingHours0,
                  dh_hasAttendance = hasAttendance0\<rparr>)\<rparr>)"

text \<open>The callback of \<^verbatim>\<open>users.map(user => ...)\<close>.\<close>

definition processUser :: "absensi_row list \<Rightarrow> day list \<Rightarrow> profile \<Rightarrow> UserDailyData" where
  "processUser attendanceData workingDaysInMonth user =
     (let userAttendance = filter (\<lambda>record. user_id record = profile_id user) attendanceData;
          acc = fold (processWorkingDay userAttendance) workingDaysInMonth initial_totals
      in \<lparr>userId = profile_id user,
          userName = profile_name user,
          dailyData = ut_dailyData acc,
          totalMissingHours = round2 (ut_totalMissingHours acc),
          totalExpectedHours = round2 (ut_totalExpectedHours acc),
          totalActualHours = round2 (ut_totalActualHours acc),
          workingDays = ut_workingDaysCount acc\<rparr>)"

text \<open>
  \<^verbatim>\<open>allDays.filter(day => !isWeekend(day))\<close> over the days of the month on display.
\<close>

definition workingDaysInMonth :: "month_ref \<Rightarrow> day list" where
  "workingDaysInMonth cm =
     (let monthStart = startOfMonth cm;
          monthEnd = endOfMonth cm;
          allDays = eachDayOfInterval monthStart monthEnd
      in filter (\<lambda>d. \<not> isWeekend d) allDays)"

text \<open>
  The state of the grid and one run of \<^verbatim>\<open>fetchGridData\<close>, given the answers of the two
  remote queries (the second one is only sent when the first one succeeds).
\<close>

record grid_state =
  gs_currentMonth :: month_ref
  gs_gridData :: "UserDailyData list"
  gs_workingDays :: "day list"
  gs_loading :: bool

definition fetchGridData ::
    "profile list query_result \<Rightarrow> absensi_row list query_result \<Rightarrow> grid_state \<Rightarrow> grid_state" where
  "fetchGridData usersRes attendanceRes st =
     (let st1 = st\<lparr>gs_loading := True\<rparr>;
          wds = workingDaysInMonth (gs_currentMonth st1);
          st2 = st1\<lparr>gs_workingDays := wds\<rparr>
      in if q_error usersRes \<noteq> None \<or> q_data usersRes = None
         then st2\<lparr>gs_loading := False\<rparr>
         else if q_error attendanceRes \<noteq> None
         then st2\<lparr>gs_loading := False\<rparr>
         else
           (let processedData =
                  map (processUser (orEmpty (q_data attendanceRes)) wds)
                      (orEmpty (q_data usersRes))
            in st2\<lparr>gs_gridData := processedData, gs_loading := False\<rparr>))"

section \<open>The hours summary: \<^verbatim>\<open>calculateHoursSummary\<close>\<close>

record HoursSummary =
  hs_userId :: string
  hs_userName :: string
  hs_workingDays :: nat
  hs_totalExpectedHours :: hours
  hs_totalActualHours :: hours
  hs_missingHours :: hours
  hs_overtimeHours :: hours
  hs_efficiency :: real
  hs_averageHoursPerDay :: hours

text \<open>
  Grouping by user: the \<^verbatim>\<open>reduce\<close> that appends each row to the list under its
  \<^verbatim>\<open>user_id\<close>, a new key going last; \<^verbatim>\<open>Object.entries\<close> then lists the
  keys in the order of their insertion (the keys are the identifiers of the profiles, not
  array indices).
\<close>

fun groupInsert :: "absensi_row \<Rightarrow> (string \<times> absensi_row list) list \<Rightarrow> (string \<times> absensi_row list) list" where
  "groupInsert record [] = [(user_id record, [record])]"
| "groupInsert record ((k, rs) # rest) =
     (if k = user_id record then (k, rs @ [record]) # rest
      else (k, rs) # groupInsert record rest)"

definition groupByUser :: "absensi_row list \<Rightarrow> (string \<times> absensi_row list) list" where
  "groupByUser attendanceData = fold groupInsert attendanceData []"

text \<open>
  The body of \<^verbatim>\<open>records.forEach(record => ...)\<close> on the accumulators
  \<^verbatim>\<open>(totalExpectedHours, totalActualHours, workingDays)\<close>.
\<close>

definition addRecordSummary :: "absensi_row \<Rightarrow> hours \<times> hours \<times> nat \<Rightarrow> hours \<times> hours \<times> nat" where
  "addRecordSummary record acc =
     (case acc of (totalExpected, totalActual, wd) \<Rightarrow>
       (case shift record of
          None \<Rightarrow> (totalExpected, totalActual, wd)
        | Some sh \<Rightarrow>
           (case jam_masuk sh of
              None \<Rightarrow> (totalExpected, totalActual, wd)
            | Some masuk \<Rightarrow>
               (case jam_keluar sh of
                  None \<Rightarrow> (totalExpected, totalActual, wd)
                | Some keluar \<Rightarrow>
                   (let wd1 = wd + 1;
                        expectedHours0 = calculateHoursDifference masuk keluar;
                        totalExpected1 = totalExpected + expectedHours0
                    in case waktu record of
                         None \<Rightarrow> (totalExpected1, totalActual, wd1)
                       | Some w \<Rightarrow>
                          (case clock_out_time record of
                             None \<Rightarrow> (totalExpected1, totalActual, wd1)
                           | Some c \<Rightarrow>
                              (let actualHours0 =
                                     calculateHoursDifference (format_HHmm w) (format_HHmm c)
                               in (totalExpected1, totalActual + actualHours0, wd1))))))))"

text \<open>\<^verbatim>\<open>records[0]?.profiles?.name || 'Unknown'\<close>.\<close>

definition summaryUserName :: "absensi_row list \<Rightarrow> string" where
  "summaryUserName records =
     (case records of
        [] \<Rightarrow> ''Unknown''
      | r # rs \<Rightarrow> (case profiles_name r of
                     None \<Rightarrow> ''Unknown''
                   | Some n \<Rightarrow> (if n = [] then ''Unknown'' else n)))"

text \<open>The summary of one user: the callback of \<^verbatim>\<open>Object.entries(userAttendance).forEach\<close>.\<close>

definition summarizeUser :: "string \<Rightarrow> absensi_row list \<Rightarrow> HoursSummary" where
  "summarizeUser uid records =
     (let (totalExpected, totalActual, wd) = fold addRecordSummary records (0, 0, 0);
          missingHours0 = Math_max0 (totalExpected - totalActual);
          overtimeHours0 = Math_max0 (totalActual - totalExpected);
          efficiency0 = (if totalExpected > 0 then (totalActual / totalExpected) * 100 else 0);
          averageHoursPerDay0 = (if wd > 0 then totalActual / of_nat wd else 0)
      in \<lparr>hs_userId = uid,
          hs_userName = summaryUserName records,
          hs_workingDays = wd,
          hs_totalExpectedHours = round2 totalExpected,
          hs_totalActualHours = round2 totalActual,
          hs_missingHours = round2 missingHours0,
          hs_overtimeHours = round2 overtimeHours0,
          hs_efficiency = round2 efficiency0,
          hs_averageHoursPerDay = round2 averageHoursPerDay0\<rparr>)"

definition calculateHoursSummary :: "absensi_row list \<Rightarrow> HoursSummary list" where
  "calculateHoursSummary attendanceData =
     map (\<lambda>(uid, records). summarizeUser uid records) (groupByUser attendanceData)"

section \<open>The contribution of one row\<close>

text \<open>
  What one row adds to the expected and to the actual hours of its day: the loop body
  run on zero accumulators.
\<close>

definition recordExpected :: "absensi_row \<Rightarrow> hours" where
  "recordExpected record = fst (addRecordHours record (0, 0))"

definition recordActual :: "absensi_row \<Rightarrow> hours" where
  "recordActual record = snd (addRecordHours record (0, 0))"

text \<open>A row carries a shift with both its start and its end time.\<close>

definition hasShiftTimes :: "absensi_row \<Rightarrow> bool" where
  "hasShiftTimes record =
     (case shift record of
        None \<Rightarrow> False
      | Some sh \<Rightarrow> jam_masuk sh \<noteq> None \<and> jam_keluar sh \<noteq> None)"

text \<open>An amount of hours that is a whole number of minutes.\<close>

definition whole_minutes :: "hours \<Rightarrow> bool" where
  "whole_minutes x = (real_of_int \<lfloor>x * 60\<rfloor> = x * 60)"

text \<open>The shift times of a row, when it has both, have no seconds.\<close>

definition shiftInMinutes :: "absensi_row \<Rightarrow> bool" where
  "shiftInMinutes record =
     (case shift record of
        None \<Rightarrow> True
      | Some sh \<Rightarrow>
         (case jam_masuk sh of
            None \<Rightarrow> True
          | Some masuk \<Rightarrow>
             (case jam_keluar sh of
                None \<Rightarrow> True
              | Some keluar \<Rightarrow> tod_second masuk = 0 \<and> tod_second keluar = 0)))"

section \<open>Example rows\<close>

text \<open>
  Rows on one day (day 5 of the epoch) used to evaluate the views: a day shift from 09:00
  to 17:00 worked from 09:05 to 16:40, the same shift without a clock-out, a row from
  09:00 to 17:00 that carries no shift, and a second shift-bearing row of the same user
  on the same day.
\<close>

definition time_hm :: "nat \<Rightarrow> nat \<Rightarrow> time_of_day" where
  "time_hm h m = \<lparr>tod_hour = h, tod_minute = m, tod_second = 0\<rparr>"

definition stamp :: "day \<Rightarrow> nat \<Rightarrow> nat \<Rightarrow> timestamp" where
  "stamp d h m = d * 86400000 + int h * 3600000 + int m * 60000"

definition day_shift :: shift_row where
  "day_shift = \<lparr>nama_shift = ''Pagi'', jam_masuk = Some (time_hm 9 0),
                jam_keluar = Some (time_hm 17 0)\<rparr>"

definition row_short :: absensi_row where
  "row_short = \<lparr>user_id = ''u1'', waktu = Some (stamp 5 9 5),
                clock_out_time = Some (stamp 5 16 40), shift = Some day_shift,
                profiles_name = Some ''Ani''\<rparr>"

definition row_open :: absensi_row where
  "row_open = \<lparr>user_id = ''u1'', waktu = Some (stamp 5 9 0),
               clock_out_time = None, shift = Some day_shift,
               profiles_name = Some ''Ani''\<rparr>"

definition row_no_shift :: absensi_row where
  "row_no_shift = \<lparr>user_id = ''u1'', waktu = Some (stamp 5 9 0),
                   clock_out_time = Some (stamp 5 17 0), shift = None,
                   profiles_name = Some ''Ani''\<rparr>"

definition row_full :: absensi_row where
  "row_full = \<lparr>user_id = ''u1'', waktu = Some (stamp 5 9 0),
               clock_out_time = Some (stamp 5 17 0), shift = Some day_shift,
               profiles_name = Some ''Ani''\<rparr>"

text \<open>A shift that ends one second after 17:00, worked from 09:00 to 17:00.\<close>

definition odd_shift :: shift_row where
  "odd_shift = \<lparr>nama_shift = ''Pagi'', jam_masuk = Some (time_hm 9 0),
                jam_keluar = Some \<lparr>tod_hour = 17, tod_minute = 0, tod_second = 1\<rparr>\<rparr>"

definition row_odd :: absensi_row where
  "row_odd = \<lparr>user_id = ''u1'', waktu = Some (stamp 5 9 0),
              clock_out_time = Some (stamp 5 17 0), shift = Some odd_shift,
              profiles_name = Some ''Ani''\<rparr>"

text \<open>
  A shift of twenty minutes worked in full on the day \<open>d\<close>: a third of an hour, which
  two decimals do not hold.
\<close>

definition short_shift :: shift_row where
  "short_shift = \<lparr>nama_shift = ''Singkat'', jam_masuk = Some (time_hm 9 0),
                  jam_keluar = Some (time_hm 9 20)\<rparr>"

definition row_third :: "day \<Rightarrow> absensi_row" where
  "row_third d = \<lparr>user_id = ''u1'', waktu = Some (stamp d 9 0),
                  clock_out_time = Some (stamp d 9 20), shift = Some short_shift,
                  profiles_name = Some ''Ani''\<rparr>"

definition user_ani :: profile where
  "user_ani = \<lparr>profile_id = ''u1'', profile_name = ''Ani''\<rparr>"

definition january_1970 :: month_ref where
  "january_1970 = \<lparr>mr_year = 1970, mr_month = 1\<rparr>"

definition february_1970 :: month_ref where
  "february_1970 = \<lparr>mr_year = 1970, mr_month = 2\<rparr>"

text \<open>
  Answers of the remote queries, and two states: a grid that shows January 1970 when the
  month on display has just become February, and a calendar before its first fetch.
\<close>

definition failed_query :: "'a query_result" where
  "failed_query = \<lparr>q_data = None, q_error = Some ''network error''\<rparr>"

definition users_answer :: "profile list query_result" where
  "users_answer = \<lparr>q_data = Some [user_ani], q_error = None\<rparr>"

definition grid_stale :: grid_state where
  "grid_stale = \<lparr>gs_currentMonth = february_1970, gs_gridData = [],
                 gs_workingDays = workingDaysInMonth january_1970, gs_loading = False\<rparr>"

definition calendar_start :: calendar_state where
  "calendar_start = \<lparr>currentMonth = january_1970, calendarData = [], loading = True,
                     selectedUser = ''u1''\<rparr>"

lemmas example_defs =
  time_hm_def stamp_def day_shift_def row_short_def row_open_def row_no_shift_def row_full_def
  short_shift_def row_third_def user_ani_def odd_shift_def row_odd_def

lemmas eval_defs =
  Math_round_def Math_max0_def round2_def valid_time_def ms_of_day_def date2000_def
  setDate_next_def calculateHoursDifference_def ms_to_hours_def format_date_def
  format_HHmm_def new_Date_def addRecordHours_def dayHours_def recordOnDay_def
  dayAttendanceOn_def recordExpected_def recordActual_def hasShiftTimes_def Let_def


section \<open>Properties of \<^verbatim>\<open>calculateHoursDifference\<close>\<close>

lemma ms_of_day_nonneg: "0 \<le> ms_of_day t"
  by (simp add: ms_of_day_def)

lemma ms_of_day_less_day:
  assumes "valid_time t"
  shows "ms_of_day t < 86400000"
proof -
  from assms have h: "tod_hour t \<le> 23" and m: "tod_minute t \<le> 59" and s: "tod_second t \<le> 59"
    by (simp_all add: valid_time_def)
  have "(tod_hour t * 60 + tod_minute t) * 60 + tod_second t \<le> (23 * 60 + 59) * 60 + 59"
    using h m s by (intro add_mono mult_le_mono) simp_all
  then have "((tod_hour t * 60 + tod_minute t) * 60 + tod_second t) * 1000 < 86400000"
    by simp
  then show ?thesis
    unfolding ms_of_day_def by linarith
qed

lemma calculateHoursDifference_same_day:
  "ms_of_day s \<le> ms_of_day e \<Longrightarrow>
     calculateHoursDifference s e = ms_to_hours (ms_of_day e - ms_of_day s)"
  by (simp add: calculateHoursDifference_def date2000_def ms_to_hours_def Let_def)

lemma calculateHoursDifference_overnight:
  "ms_of_day e < ms_of_day s \<Longrightarrow>
     calculateHoursDifference s e = ms_to_hours (ms_of_day e + 86400000 - ms_of_day s)"
  by (simp add: calculateHoursDifference_def date2000_def setDate_next_def ms_to_hours_def Let_def)

lemma calculateHoursDifference_nonneg:
  assumes "valid_time s"
  shows "0 \<le> calculateHoursDifference s e"
proof (cases "ms_of_day e < ms_of_day s")
  case True
  have "0 \<le> ms_of_day e + 86400000 - ms_of_day s"
    using ms_of_day_less_day [OF assms] ms_of_day_nonneg [of e] by linarith
  then show ?thesis
    using True by (simp add: calculateHoursDifference_overnight ms_to_hours_def)
next
  case False
  then show ?thesis
    by (simp add: calculateHoursDifference_same_day ms_to_hours_def)
qed

text \<open>
  Claim C1. For two times of day \<open>s\<close> (start) and \<open>e\<close> (end),
  \<^verbatim>\<open>calculateHoursDifference\<close> is \<open>e - s\<close> when \<open>e\<close> is not before \<open>s\<close>, it is
  \<open>(e + 24h) - s\<close> when \<open>e\<close> is before \<open>s\<close> (the overnight policy), and it is never
  negative.
\<close>

theorem calculateHoursDifference_policy:
  assumes "valid_time s" and "valid_time e"
  shows "(ms_of_day s \<le> ms_of_day e \<longrightarrow>
            calculateHoursDifference s e = ms_to_hours (ms_of_day e - ms_of_day s))
       \<and> (ms_of_day e < ms_of_day s \<longrightarrow>
            calculateHoursDifference s e = ms_to_hours (ms_of_day e + 86400000 - ms_of_day s))
       \<and> 0 \<le> calculateHoursDifference s e"
  using assms
  by (simp add: calculateHoursDifference_same_day calculateHoursDifference_overnight
      calculateHoursDifference_nonneg)

theorem calculateHoursDifference_policy_witness:
  "valid_time \<lparr>tod_hour = 22, tod_minute = 0, tod_second = 0\<rparr>
   \<and> valid_time \<lparr>tod_hour = 6, tod_minute = 0, tod_second = 0\<rparr>
   \<and> ms_of_day \<lparr>tod_hour = 6, tod_minute = 0, tod_second = 0\<rparr>
       < ms_of_day \<lparr>tod_hour = 22, tod_minute = 0, tod_second = 0\<rparr>
   \<and> calculateHoursDifference \<lparr>tod_hour = 22, tod_minute = 0, tod_second = 0\<rparr>
        \<lparr>tod_hour = 6, tod_minute = 0, tod_second = 0\<rparr> = 8
   \<and> ms_of_day \<lparr>tod_hour = 6, tod_minute = 0, tod_second = 0\<rparr>
       \<le> ms_of_day \<lparr>tod_hour = 9, tod_minute = 30, tod_second = 0\<rparr>
   \<and> calculateHoursDifference \<lparr>tod_hour = 6, tod_minute = 0, tod_second = 0\<rparr>
        \<lparr>tod_hour = 9, tod_minute = 30, tod_second = 0\<rparr> = 7 / 2"
  using calculateHoursDifference_policy
          [of "\<lparr>tod_hour = 22, tod_minute = 0, tod_second = 0\<rparr>"
              "\<lparr>tod_hour = 6, tod_minute = 0, tod_second = 0\<rparr>"]
        calculateHoursDifference_policy
          [of "\<lparr>tod_hour = 6, tod_minute = 0, tod_second = 0\<rparr>"
              "\<lparr>tod_hour = 9, tod_minute = 30, tod_second = 0\<rparr>"]
  by (simp add: valid_time_def ms_of_day_def ms_to_hours_def)

section \<open>Rounding\<close>

lemma round2_zero: "round2 0 = 0"
  by (simp add: round2_def Math_round_def)

lemma round2_pos_imp_pos: "0 < round2 x \<Longrightarrow> 0 < x"
proof (rule ccontr)
  assume pos: "0 < round2 x" and "\<not> 0 < x"
  then have "x * 100 + 1 / 2 < 1" by simp
  then have "\<lfloor>x * 100 + 1 / 2\<rfloor> \<le> 0" by linarith
  then have "round2 x \<le> 0"
    by (simp add: round2_def Math_round_def divide_le_0_iff)
  with pos show False by simp
qed

lemma max0_exclusive: "\<not> (0 < Math_max0 (e - a) \<and> 0 < Math_max0 (a - e))"
  by (simp add: Math_max0_def max_def)

lemma round2_max0_exclusive:
  "\<not> (0 < round2 (Math_max0 (e - a)) \<and> 0 < round2 (Math_max0 (a - e)))"
  using max0_exclusive [of e a] round2_pos_imp_pos by blast

section \<open>The loops as sums\<close>

lemma addRecordHours_contrib:
  "addRecordHours r (e, a) = (e + recordExpected r, a + recordActual r)"
  by (simp add: addRecordHours_def recordExpected_def recordActual_def Let_def
      split: option.splits)

lemma fold_addRecordHours:
  "fold addRecordHours rs (e, a) =
     (e + sum_list (map recordExpected rs), a + sum_list (map recordActual rs))"
  by (induction rs arbitrary: e a) (simp_all add: addRecordHours_contrib add.assoc)

lemma dayHours_sums:
  "dayHours rs = (sum_list (map recordExpected rs), sum_list (map recordActual rs))"
  by (simp add: dayHours_def fold_addRecordHours)

lemma processDay_fields:
  "processDay attendanceData d =
     (let da = dayAttendanceOn d attendanceData;
          e = sum_list (map recordExpected da);
          a = sum_list (map recordActual da)
      in \<lparr>date = d, expectedHours = round2 e, actualHours = round2 a,
          missingHours = round2 (Math_max0 (e - a)),
          overtimeHours = round2 (Math_max0 (a - e)),
          hasAttendance = (da \<noteq> []),
          status = (if da \<noteq> [] then (if 0 < Math_max0 (e - a) then Missing
                       else if 0 < Math_max0 (a - e) then Overtime else Complete)
                    else NoAttendance),
          attendanceRecords = da\<rparr>)"
  by (simp add: processDay_def dayHours_sums Let_def)

lemma addRecordSummary_contrib:
  "addRecordSummary r (e, a, n) =
     (e + recordExpected r, a + recordActual r, n + (if hasShiftTimes r then 1 else 0))"
  by (simp add: addRecordSummary_def addRecordHours_def recordExpected_def recordActual_def
      hasShiftTimes_def Let_def split: option.splits)

lemma fold_addRecordSummary:
  "fold addRecordSummary rs (e, a, n) =
     (e + sum_list (map recordExpected rs), a + sum_list (map recordActual rs),
      n + length (filter hasShiftTimes rs))"
  by (induction rs arbitrary: e a n) (simp_all add: addRecordSummary_contrib add.assoc)

lemma summarizeUser_fields:
  "summarizeUser uid records =
     (let e = sum_list (map recordExpected records);
          a = sum_list (map recordActual records);
          n = length (filter hasShiftTimes records)
      in \<lparr>hs_userId = uid,
          hs_userName = summaryUserName records,
          hs_workingDays = n,
          hs_totalExpectedHours = round2 e,
          hs_totalActualHours = round2 a,
          hs_missingHours = round2 (Math_max0 (e - a)),
          hs_overtimeHours = round2 (Math_max0 (a - e)),
          hs_efficiency = round2 (if 0 < e then a / e * 100 else 0),
          hs_averageHoursPerDay = round2 (if 0 < n then a / real n else 0)\<rparr>)"
  by (simp add: summarizeUser_def fold_addRecordSummary Let_def)

lemma recordExpected_no_shift: "shift r = None \<Longrightarrow> recordExpected r = 0"
  by (simp add: recordExpected_def addRecordHours_def)

lemma recordActual_no_shift: "shift r = None \<Longrightarrow> recordActual r = 0"
  by (simp add: recordActual_def addRecordHours_def)

lemma recordActual_no_clock_out: "clock_out_time r = None \<Longrightarrow> recordActual r = 0"
  by (simp add: recordActual_def addRecordHours_def Let_def split: option.splits)

lemma recordActual_no_waktu: "waktu r = None \<Longrightarrow> recordActual r = 0"
  by (simp add: recordActual_def addRecordHours_def Let_def split: option.splits)

lemma sum_list_map_filter_nonzero:
  fixes f :: "'a \<Rightarrow> real"
  assumes "\<And>x. x \<in> set xs \<Longrightarrow> \<not> P x \<Longrightarrow> f x = 0"
  shows "sum_list (map f (filter P xs)) = sum_list (map f xs)"
  using assms by (induction xs) auto

section \<open>Missing and overtime hours, and the classification of a day\<close>

text \<open>
  Claim C2. In every day aggregate the missing hours are the rounded
  \<open>max(0, expected - actual)\<close> and the overtime hours the rounded
  \<open>max(0, actual - expected)\<close> of the sums of the day, and the two are never both
  positive, before the rounding as after it. The same holds of the missing and overtime
  hours of a user's summary.
\<close>

theorem missing_overtime_never_both_positive:
  fixes attendanceData :: "absensi_row list" and d :: day
  defines "e \<equiv> fst (dayHours (dayAttendanceOn d attendanceData))"
      and "a \<equiv> snd (dayHours (dayAttendanceOn d attendanceData))"
  shows "missingHours (processDay attendanceData d) = round2 (Math_max0 (e - a))
       \<and> overtimeHours (processDay attendanceData d) = round2 (Math_max0 (a - e))
       \<and> \<not> (0 < Math_max0 (e - a) \<and> 0 < Math_max0 (a - e))
       \<and> \<not> (0 < missingHours (processDay attendanceData d)
              \<and> 0 < overtimeHours (processDay attendanceData d))
       \<and> \<not> (0 < hs_missingHours (summarizeUser uid records)
              \<and> 0 < hs_overtimeHours (summarizeUser uid records))"
  using max0_exclusive [of e a]
  by (simp add: e_def a_def processDay_fields summarizeUser_fields dayHours_sums Let_def
      round2_max0_exclusive del: de_Morgan_conj)



section \<open>The classification and the reported hours\<close>

text \<open>
  The classification tests the missing and overtime hours before they are rounded. When
  the shift times of the day have no seconds, every amount is a whole number of minutes,
  a positive one is at least a sixtieth of an hour and rounds to at least 0.02: the
  classification is then also the one that the reported, rounded hours give. A shift time
  with seconds can leave a day classified missing with 0 reported missing hours.
\<close>

lemma whole_minutesI: "x = real_of_int k / 60 \<Longrightarrow> whole_minutes x"
  by (simp add: whole_minutes_def)

lemma whole_minutesE:
  assumes "whole_minutes x"
  obtains k :: int where "x = real_of_int k / 60"
proof
  from assms have h: "real_of_int \<lfloor>x * 60\<rfloor> = x * 60"
    unfolding whole_minutes_def .
  show "x = real_of_int \<lfloor>x * 60\<rfloor> / 60"
    unfolding h by simp
qed

lemma whole_minutes_zero: "whole_minutes 0"
  by (simp add: whole_minutes_def)

lemma whole_minutes_add:
  assumes "whole_minutes x" and "whole_minutes y"
  shows "whole_minutes (x + y)"
proof -
  from assms obtain i j :: int where "x = real_of_int i / 60" "y = real_of_int j / 60"
    by (elim whole_minutesE)
  then have "x + y = real_of_int (i + j) / 60" by (simp add: add_divide_distrib)
  then show ?thesis by (rule whole_minutesI)
qed

lemma whole_minutes_diff:
  assumes "whole_minutes x" and "whole_minutes y"
  shows "whole_minutes (x - y)"
proof -
  from assms obtain i j :: int where "x = real_of_int i / 60" "y = real_of_int j / 60"
    by (elim whole_minutesE)
  then have "x - y = real_of_int (i - j) / 60" by (simp add: diff_divide_distrib)
  then show ?thesis by (rule whole_minutesI)
qed

lemma whole_minutes_sum_list:
  "(\<And>r. r \<in> set rs \<Longrightarrow> whole_minutes (f r)) \<Longrightarrow> whole_minutes (sum_list (map f rs))"
  by (induction rs) (simp_all add: whole_minutes_zero whole_minutes_add)

lemma round2_whole_minutes_pos:
  assumes "whole_minutes x" and "0 < x"
  shows "0 < round2 x"
proof -
  from assms(1) obtain k :: int where x: "x = real_of_int k / 60" by (rule whole_minutesE)
  with \<open>0 < x\<close> have "1 \<le> k" by (simp add: zero_less_divide_iff)
  then have "1 \<le> real_of_int k" by simp
  then have "1 \<le> x * 100 + 1 / 2" unfolding x by simp
  then have "1 \<le> \<lfloor>x * 100 + 1 / 2\<rfloor>" by linarith
  then show ?thesis
    by (simp add: round2_def Math_round_def)
qed

lemma calculateHoursDifference_whole_minutes:
  assumes "tod_second s = 0" and "tod_second e = 0"
  shows "whole_minutes (calculateHoursDifference s e)"
proof -
  have ms: "ms_of_day t = 60000 * int (tod_hour t * 60 + tod_minute t)" if "tod_second t = 0" for t
    using that by (simp add: ms_of_day_def)
  let ?a = "int (tod_hour s * 60 + tod_minute s)"
  let ?b = "int (tod_hour e * 60 + tod_minute e)"
  show ?thesis
  proof (cases "ms_of_day e < ms_of_day s")
    case True
    then have "calculateHoursDifference s e = real_of_int (?b + 1440 - ?a) / 60"
      by (simp add: calculateHoursDifference_overnight ms_to_hours_def ms [OF assms(1)] ms [OF assms(2)])
    then show ?thesis by (rule whole_minutesI)
  next
    case False
    then have "calculateHoursDifference s e = real_of_int (?b - ?a) / 60"
      by (simp add: calculateHoursDifference_same_day ms_to_hours_def ms [OF assms(1)] ms [OF assms(2)])
    then show ?thesis by (rule whole_minutesI)
  qed
qed

lemma format_HHmm_second: "tod_second (format_HHmm ts) = 0"
  by (simp add: format_HHmm_def Let_def)

lemma recordActual_whole_minutes: "whole_minutes (recordActual r)"
  by (simp add: recordActual_def addRecordHours_def Let_def format_HHmm_second
      whole_minutes_zero calculateHoursDifference_whole_minutes split: option.splits)

lemma recordExpected_whole_minutes:
  "shiftInMinutes r \<Longrightarrow> whole_minutes (recordExpected r)"
  by (auto simp: recordExpected_def addRecordHours_def shiftInMinutes_def Let_def
      whole_minutes_zero calculateHoursDifference_whole_minutes split: option.splits)

lemma round2_pos_iff_whole_minutes:
  assumes "whole_minutes x"
  shows "0 < round2 (Math_max0 x) \<longleftrightarrow> 0 < Math_max0 x"
proof
  assume "0 < round2 (Math_max0 x)"
  then show "0 < Math_max0 x" by (rule round2_pos_imp_pos)
next
  assume pos: "0 < Math_max0 x"
  then have "Math_max0 x = x" by (simp add: Math_max0_def max_def split: if_splits)
  with pos assms show "0 < round2 (Math_max0 x)"
    by (simp add: round2_whole_minutes_pos)
qed

lemma reported_hours_classification:
  assumes "\<forall>r \<in> set (dayAttendanceOn d attendanceData). shiftInMinutes r"
  shows "status (processDay attendanceData d)
           = (if \<not> hasAttendance (processDay attendanceData d) then NoAttendance
              else if 0 < missingHours (processDay attendanceData d) then Missing
              else if 0 < overtimeHours (processDay attendanceData d) then Overtime
              else Complete)"
proof -
  let ?da = "dayAttendanceOn d attendanceData"
  let ?e = "sum_list (map recordExpected ?da)"
  let ?a = "sum_list (map recordActual ?da)"
  have e: "whole_minutes ?e"
    by (rule whole_minutes_sum_list) (use assms recordExpected_whole_minutes in blast)
  have a: "whole_minutes ?a"
    by (rule whole_minutes_sum_list) (rule recordActual_whole_minutes)
  have m: "0 < round2 (Math_max0 (?e - ?a)) \<longleftrightarrow> 0 < Math_max0 (?e - ?a)"
    by (rule round2_pos_iff_whole_minutes) (rule whole_minutes_diff [OF e a])
  have o: "0 < round2 (Math_max0 (?a - ?e)) \<longleftrightarrow> 0 < Math_max0 (?a - ?e)"
    by (rule round2_pos_iff_whole_minutes) (rule whole_minutes_diff [OF a e])
  show ?thesis
    by (simp add: processDay_fields Let_def m o)
qed

lemma status_missing_reported_zero:
  "status (processDay [row_odd] 5) = Missing
   \<and> missingHours (processDay [row_odd] 5) = 0
   \<and> overtimeHours (processDay [row_odd] 5) = 0"
  by (simp add: processDay_def eval_defs example_defs)

section \<open>Rows without a clock-out\<close>

text \<open>
  Claim C5. A row without a clock-out adds exactly 0 to the actual hours, in the loop of
  the day views and in the loop of the summary; the actual hours change only on a row
  that has both its clock-in and its clock-out, and the actual hours of a day are the sum
  over the rows that have both.
\<close>

theorem absent_clock_out_zero_actual:
  "(clock_out_time r = None \<longrightarrow>
       recordActual r = 0
     \<and> snd (addRecordHours r (e, a)) = a
     \<and> fst (snd (addRecordSummary r (e, a, n))) = a)
   \<and> (snd (addRecordHours r (e, a)) \<noteq> a \<or> fst (snd (addRecordSummary r (e, a, n))) \<noteq> a \<longrightarrow>
        waktu r \<noteq> None \<and> clock_out_time r \<noteq> None)
   \<and> snd (dayHours rs)
       = sum_list (map recordActual
           (filter (\<lambda>r. waktu r \<noteq> None \<and> clock_out_time r \<noteq> None) rs))"
proof -
  have "sum_list (map recordActual
           (filter (\<lambda>r. waktu r \<noteq> None \<and> clock_out_time r \<noteq> None) rs))
        = sum_list (map recordActual rs)"
    by (rule sum_list_map_filter_nonzero)
       (auto simp: recordActual_no_clock_out recordActual_no_waktu)
  moreover have "recordActual r \<noteq> 0 \<longrightarrow> waktu r \<noteq> None \<and> clock_out_time r \<noteq> None"
    using recordActual_no_clock_out recordActual_no_waktu by blast
  ultimately show ?thesis
    by (auto simp: addRecordHours_contrib addRecordSummary_contrib dayHours_sums
        recordActual_no_clock_out)
qed

theorem absent_clock_out_zero_actual_witness:
  "clock_out_time row_open = None
   \<and> recordActual row_open = 0
   \<and> recordExpected row_open = 8
   \<and> addRecordHours row_open (0, 0) = (8, 0)
   \<and> addRecordHours row_full (0, 0) = (8, 8)
   \<and> waktu row_full \<noteq> None \<and> clock_out_time row_full \<noteq> None"
  using absent_clock_out_zero_actual [of row_open 0 0 0 "[]"]
        absent_clock_out_zero_actual [of row_full 0 0 0 "[]"]
  by (simp add: eval_defs example_defs)

section \<open>Grouping the rows by user\<close>

lemma groupInsert_keys:
  "map fst (groupInsert r acc)
     = (if user_id r \<in> set (map fst acc) then map fst acc else map fst acc @ [user_id r])"
  by (induction r acc rule: groupInsert.induct) auto

lemma groupInsert_distinct:
  "distinct (map fst acc) \<Longrightarrow> distinct (map fst (groupInsert r acc))"
  by (simp add: groupInsert_keys)

lemma groupInsert_map_of:
  "map_of (groupInsert r acc) u
     = (if u = user_id r
        then Some ((case map_of acc u of None \<Rightarrow> [] | Some rs \<Rightarrow> rs) @ [r])
        else map_of acc u)"
  by (induction r acc rule: groupInsert.induct) auto

lemma fold_groupInsert_distinct:
  "distinct (map fst acc) \<Longrightarrow> distinct (map fst (fold groupInsert rows acc))"
  by (induction rows arbitrary: acc) (simp_all add: groupInsert_distinct)

lemma fold_groupInsert_map_of:
  "map_of (fold groupInsert rows acc) u
     = (case map_of acc u of
          Some rs \<Rightarrow> Some (rs @ filter (\<lambda>r. user_id r = u) rows)
        | None \<Rightarrow> (if filter (\<lambda>r. user_id r = u) rows = [] then None
                   else Some (filter (\<lambda>r. user_id r = u) rows)))"
proof (induction rows arbitrary: acc)
  case Nil
  then show ?case by (simp split: option.splits)
next
  case (Cons r rows)
  show ?case
    by (simp add: Cons.IH groupInsert_map_of split: option.splits)
qed

lemma groupByUser_member:
  "(u, recs) \<in> set (groupByUser rows) \<longleftrightarrow>
     recs = filter (\<lambda>r. user_id r = u) rows \<and> recs \<noteq> []"
proof -
  have d: "distinct (map fst (groupByUser rows))"
    unfolding groupByUser_def by (rule fold_groupInsert_distinct) simp
  have "(u, recs) \<in> set (groupByUser rows) \<longleftrightarrow> map_of (groupByUser rows) u = Some recs"
    using d by simp
  also have "\<dots> \<longleftrightarrow> recs = filter (\<lambda>r. user_id r = u) rows \<and> recs \<noteq> []"
    by (auto simp: groupByUser_def fold_groupInsert_map_of)
  finally show ?thesis .
qed

lemma calculateHoursSummary_member:
  assumes "s \<in> set (calculateHoursSummary rows)"
  shows "s = summarizeUser (hs_userId s) (filter (\<lambda>r. user_id r = hs_userId s) rows)"
proof -
  from assms obtain u recs where m: "(u, recs) \<in> set (groupByUser rows)"
    and s: "s = summarizeUser u recs"
    by (auto simp: calculateHoursSummary_def)
  from s have "hs_userId s = u" by (simp add: summarizeUser_def Let_def split: prod.splits)
  with m s show ?thesis by (simp add: groupByUser_member)
qed

lemma calculateHoursSummary_users:
  "hs_userId ` set (calculateHoursSummary rows) = user_id ` set rows"
proof -
  have id: "hs_userId (summarizeUser u recs) = u" for u recs
    by (simp add: summarizeUser_def Let_def split: prod.splits)
  have "hs_userId ` set (calculateHoursSummary rows) = fst ` set (groupByUser rows)"
    by (force simp: calculateHoursSummary_def id image_iff)
  also have "\<dots> = user_id ` set rows"
  proof (intro set_eqI iffI)
    fix u assume "u \<in> fst ` set (groupByUser rows)"
    then obtain recs where "(u, recs) \<in> set (groupByUser rows)" by auto
    then have "filter (\<lambda>r. user_id r = u) rows \<noteq> []"
      unfolding groupByUser_member by blast
    then show "u \<in> user_id ` set rows"
      by (auto simp: filter_empty_conv)
  next
    fix u assume "u \<in> user_id ` set rows"
    then have "filter (\<lambda>r. user_id r = u) rows \<noteq> []"
      by (auto simp: filter_empty_conv)
    then have "(u, filter (\<lambda>r. user_id r = u) rows) \<in> set (groupByUser rows)"
      by (simp add: groupByUser_member)
    then show "u \<in> fst ` set (groupByUser rows)"
      by force
  qed
  finally show ?thesis .
qed

lemma hs_userId_summarizeUser: "hs_userId (summarizeUser u recs) = u"
  by (simp add: summarizeUser_fields Let_def)

section \<open>The working days of the summary\<close>

text \<open>
  Claim C10. In the summary of a user, \<^verbatim>\<open>workingDays\<close> is the number of the user's rows
  that carry a shift with both times, whatever their days: every such row adds one, a row
  without a complete shift adds none, and that number is the divisor of
  \<^verbatim>\<open>averageHoursPerDay\<close>.
\<close>

theorem summary_workingDays_counts_rows:
  "hs_workingDays (summarizeUser uid records) = length (filter hasShiftTimes records)
   \<and> hs_averageHoursPerDay (summarizeUser uid records)
       = round2 (if 0 < length (filter hasShiftTimes records)
                 then sum_list (map recordActual records)
                        / real (length (filter hasShiftTimes records))
                 else 0)
   \<and> snd (snd (addRecordSummary r (e, a, n))) = n + (if hasShiftTimes r then 1 else 0)
   \<and> (\<forall>s \<in> set (calculateHoursSummary rows).
         hs_workingDays s
           = length (filter hasShiftTimes (filter (\<lambda>r. user_id r = hs_userId s) rows)))"
proof -
  have "hs_workingDays s
          = length (filter hasShiftTimes (filter (\<lambda>r. user_id r = hs_userId s) rows))"
    if "s \<in> set (calculateHoursSummary rows)" for s
    using calculateHoursSummary_member [OF that]
    by (metis summarizeUser_fields HoursSummary.select_convs(3))
  then show ?thesis
    by (simp add: summarizeUser_fields addRecordSummary_contrib Let_def)
qed

text \<open>
  Three rows of one user on one day, two of them with a shift: the summary counts two
  working days, and none for a row without a shift.
\<close>

theorem summary_workingDays_counts_rows_witness:
  "map (format_date \<circ> new_Date \<circ> waktu) [row_full, row_short, row_no_shift] = [5, 5, 5]
   \<and> filter hasShiftTimes [row_full, row_short, row_no_shift] = [row_full, row_short]
   \<and> hs_workingDays (summarizeUser ''u1'' [row_full, row_short, row_no_shift]) = 2
   \<and> hs_workingDays (summarizeUser ''u1'' [row_no_shift]) = 0
   \<and> hs_averageHoursPerDay (summarizeUser ''u1'' [row_full, row_short, row_no_shift])
       = 779 / 100
   \<and> calculateHoursSummary [row_full, row_short, row_no_shift]
       = [summarizeUser ''u1'' [row_full, row_short, row_no_shift]]"
  using summary_workingDays_counts_rows
          [of "''u1''" "[row_full, row_short, row_no_shift]" row_full 0 0 0
              "[row_full, row_short, row_no_shift]"]
        summary_workingDays_counts_rows
          [of "''u1''" "[row_no_shift]" row_no_shift 0 0 0 "[row_no_shift]"]
  by (simp add: calculateHoursSummary_def groupByUser_def eval_defs example_defs)

section \<open>The loop over the working days\<close>

lemma dayHours_Nil: "dayHours [] = (0, 0)"
  by (simp add: dayHours_def)

lemma processWorkingDay_totals:
  "ut_totalExpectedHours (processWorkingDay ua d acc)
     = ut_totalExpectedHours acc + fst (dayHours (dayAttendanceOn d ua))"
  "ut_totalActualHours (processWorkingDay ua d acc)
     = ut_totalActualHours acc + snd (dayHours (dayAttendanceOn d ua))"
  "ut_totalMissingHours (processWorkingDay ua d acc)
     = ut_totalMissingHours acc
       + Math_max0 (fst (dayHours (dayAttendanceOn d ua)) - snd (dayHours (dayAttendanceOn d ua)))"
  "ut_workingDaysCount (processWorkingDay ua d acc)
     = ut_workingDaysCount acc + (if dayAttendanceOn d ua = [] then 0 else 1)"
  by (cases "dayAttendanceOn d ua = []";
      simp add: processWorkingDay_def Let_def dayHours_Nil Math_max0_def split: prod.splits)+

lemma fold_processWorkingDay_totals:
  "ut_totalExpectedHours (fold (processWorkingDay ua) ds acc)
     = ut_totalExpectedHours acc + (\<Sum>d\<leftarrow>ds. fst (dayHours (dayAttendanceOn d ua)))"
  "ut_totalActualHours (fold (processWorkingDay ua) ds acc)
     = ut_totalActualHours acc + (\<Sum>d\<leftarrow>ds. snd (dayHours (dayAttendanceOn d ua)))"
  "ut_totalMissingHours (fold (processWorkingDay ua) ds acc)
     = ut_totalMissingHours acc
       + (\<Sum>d\<leftarrow>ds. Math_max0 (fst (dayHours (dayAttendanceOn d ua))
                                 - snd (dayHours (dayAttendanceOn d ua))))"
  "ut_workingDaysCount (fold (processWorkingDay ua) ds acc)
     = ut_workingDaysCount acc + length (filter (\<lambda>d. dayAttendanceOn d ua \<noteq> []) ds)"
  by (induction ds arbitrary: acc; simp add: processWorkingDay_totals add.assoc)+




lemma sorted_eachDayOfInterval: "sorted (eachDayOfInterval s e)"
  by (simp add: eachDayOfInterval_def)



lemma processUser_fields:
  "processUser attendanceData wds user =
     (let ua = filter (\<lambda>record. user_id record = profile_id user) attendanceData;
          acc = fold (processWorkingDay ua) wds initial_totals
      in \<lparr>userId = profile_id user, userName = profile_name user,
          dailyData = ut_dailyData acc,
          totalMissingHours =
            round2 (\<Sum>d\<leftarrow>wds. Math_max0 (fst (dayHours (dayAttendanceOn d ua))
                                         - snd (dayHours (dayAttendanceOn d ua)))),
          totalExpectedHours = round2 (\<Sum>d\<leftarrow>wds. fst (dayHours (dayAttendanceOn d ua))),
          totalActualHours = round2 (\<Sum>d\<leftarrow>wds. snd (dayHours (dayAttendanceOn d ua))),
          workingDays = length (filter (\<lambda>d. dayAttendanceOn d ua \<noteq> []) wds)\<rparr>)"
  by (simp add: processUser_def Let_def fold_processWorkingDay_totals initial_totals_def)


section \<open>Totals are rounded once\<close>


lemma workingDaysInMonth_january_1970:
  "workingDaysInMonth january_1970
     = [0, 1, 4, 5, 6, 7, 8, 11, 12, 13, 14, 15, 18, 19, 20, 21, 22, 25, 26, 27, 28, 29]"
  by (simp add: workingDaysInMonth_def january_1970_def startOfMonth_def endOfMonth_def
      days_from_civil_def getDaysInMonth_def eachDayOfInterval_def isWeekend_def getDay_def
      Let_def upto_rec1)

lemma workingDaysInMonth_february_1970:
  "workingDaysInMonth february_1970
     = [32, 33, 34, 35, 36, 39, 40, 41, 42, 43, 46, 47, 48, 49, 50, 53, 54, 55, 56, 57]"
  by (simp add: workingDaysInMonth_def february_1970_def startOfMonth_def endOfMonth_def
      days_from_civil_def getDaysInMonth_def isLeapYear_def eachDayOfInterval_def
      isWeekend_def getDay_def Let_def upto_rec1)


section \<open>Days without rows in the grid\<close>

text \<open>
  Claim C7. In the grid, a working day on which the user has no row leaves the running
  totals and the count of working days as they are; so \<^verbatim>\<open>workingDays\<close> is the number
  of working days with at least one row, and the totals of the month are those of these
  days alone.
\<close>

theorem absent_day_adds_nothing:
  fixes attendanceData :: "absensi_row list" and wds :: "day list" and user :: profile
  defines "ua \<equiv> filter (\<lambda>record. user_id record = profile_id user) attendanceData"
  defines "attended \<equiv> filter (\<lambda>d. dayAttendanceOn d ua \<noteq> []) wds"
  shows "(dayAttendanceOn d ua = [] \<longrightarrow>
            ut_totalExpectedHours (processWorkingDay ua d acc) = ut_totalExpectedHours acc
          \<and> ut_totalActualHours (processWorkingDay ua d acc) = ut_totalActualHours acc
          \<and> ut_totalMissingHours (processWorkingDay ua d acc) = ut_totalMissingHours acc
          \<and> ut_workingDaysCount (processWorkingDay ua d acc) = ut_workingDaysCount acc)
       \<and> workingDays (processUser attendanceData wds user) = length attended
       \<and> workingDays (processUser attendanceData wds user)
           = workingDays (processUser attendanceData attended user)
       \<and> totalExpectedHours (processUser attendanceData wds user)
           = totalExpectedHours (processUser attendanceData attended user)
       \<and> totalActualHours (processUser attendanceData wds user)
           = totalActualHours (processUser attendanceData attended user)
       \<and> totalMissingHours (processUser attendanceData wds user)
           = totalMissingHours (processUser attendanceData attended user)"
proof -
  have drop: "(\<Sum>d\<leftarrow>filter (\<lambda>d. dayAttendanceOn d ua \<noteq> []) wds. f (dayHours (dayAttendanceOn d ua)))
              = (\<Sum>d\<leftarrow>wds. f (dayHours (dayAttendanceOn d ua)))"
    if "f (0, 0) = 0" for f :: "hours \<times> hours \<Rightarrow> real"
    using that by (induction wds) (auto simp: dayHours_Nil)
  have e: "(\<Sum>d\<leftarrow>attended. fst (dayHours (dayAttendanceOn d ua)))
              = (\<Sum>d\<leftarrow>wds. fst (dayHours (dayAttendanceOn d ua)))"
    unfolding attended_def by (rule drop) simp
  have a: "(\<Sum>d\<leftarrow>attended. snd (dayHours (dayAttendanceOn d ua)))
              = (\<Sum>d\<leftarrow>wds. snd (dayHours (dayAttendanceOn d ua)))"
    unfolding attended_def by (rule drop) simp
  have m: "(\<Sum>d\<leftarrow>attended. Math_max0 (fst (dayHours (dayAttendanceOn d ua))
                                       - snd (dayHours (dayAttendanceOn d ua))))
              = (\<Sum>d\<leftarrow>wds. Math_max0 (fst (dayHours (dayAttendanceOn d ua))
                                       - snd (dayHours (dayAttendanceOn d ua))))"
    unfolding attended_def
    by (rule drop [where f = "\<lambda>p. Math_max0 (fst p - snd p)"]) (simp add: Math_max0_def)
  have n: "filter (\<lambda>d. dayAttendanceOn d ua \<noteq> []) attended = attended"
    by (simp add: attended_def)
  show ?thesis
    using e a m n
    by (simp add: processUser_fields Let_def processWorkingDay_totals dayHours_Nil
        Math_max0_def flip: ua_def attended_def)
qed


theorem absent_day_adds_nothing_witness:
  "dayAttendanceOn 4
     (filter (\<lambda>record. user_id record = profile_id user_ani) [row_third 5, row_third 6]) = []
   \<and> workingDays (processUser [row_third 5, row_third 6] [4, 5, 6, 7] user_ani) = 2
   \<and> workingDays (processUser [row_third 5, row_third 6] [4, 5, 6, 7] user_ani)
       = workingDays (processUser [row_third 5, row_third 6] [5, 6] user_ani)"
  using absent_day_adds_nothing
          [where user = user_ani and wds = "[4, 5, 6, 7]" and d = 4 and acc = initial_totals
             and attendanceData = "[row_third 5, row_third 6]"]
  by (simp add: eval_defs example_defs)

section \<open>The working days of a month\<close>

text \<open>
  Claim C8. The working-day columns of the grid are the days from the first to the last
  day of the month on display that are neither a Sunday nor a Saturday, each once and in
  increasing order; no other day is excluded.
\<close>

theorem working_days_are_weekdays_in_order:
  "workingDaysInMonth cm
     = filter (\<lambda>d. getDay d \<noteq> 0 \<and> getDay d \<noteq> 6) [startOfMonth cm..endOfMonth cm]
   \<and> set (workingDaysInMonth cm)
     = {d. startOfMonth cm \<le> d \<and> d \<le> endOfMonth cm \<and> getDay d \<noteq> 0 \<and> getDay d \<noteq> 6}
   \<and> sorted_wrt (<) (workingDaysInMonth cm)"
proof -
  have "sorted_wrt (<) [startOfMonth cm..endOfMonth cm]"
    by simp
  then have "sorted_wrt (<) (filter (\<lambda>d. \<not> isWeekend d) [startOfMonth cm..endOfMonth cm])"
    by (rule sorted_wrt_filter)
  then show ?thesis
    by (auto simp: workingDaysInMonth_def eachDayOfInterval_def isWeekend_def Let_def)
qed

text \<open>The days from the first to the last day of a month are as many as the month has.\<close>

lemma month_length:
  "endOfMonth cm - startOfMonth cm + 1 = int (getDaysInMonth cm)"
  by (simp add: endOfMonth_def startOfMonth_def days_from_civil_def Let_def)

section \<open>A fetch that fails\<close>

text \<open>
  Claim C9, as amended. When a query of \<^verbatim>\<open>fetchGridData\<close> fails, the grid data is what
  it was, the loading flag ends false, and the working-day columns are those of the month
  on display, written before the queries are sent. When the query of
  \<^verbatim>\<open>fetchCalendarData\<close> fails, the calendar data is what it was and only the loading
  flag ends false.
\<close>

theorem failed_fetch_keeps_data:
  "(q_error usersRes \<noteq> None \<or> q_data usersRes = None \<or> q_error attendanceRes \<noteq> None \<longrightarrow>
       fetchGridData usersRes attendanceRes st
         = st\<lparr>gs_workingDays := workingDaysInMonth (gs_currentMonth st), gs_loading := False\<rparr>
     \<and> gs_gridData (fetchGridData usersRes attendanceRes st) = gs_gridData st)
   \<and> (q_error res \<noteq> None \<longrightarrow>
       fetchCalendarData res cst
         = (if selectedUser cst = [] \<or> selectedUser cst = ''all'' then cst
            else cst\<lparr>loading := False\<rparr>)
     \<and> calendarData (fetchCalendarData res cst) = calendarData cst)"
  by (auto simp: fetchGridData_def fetchCalendarData_def Let_def split: option.splits)

theorem failed_fetch_keeps_data_witness:
  "q_error (failed_query :: absensi_row list query_result) \<noteq> None
   \<and> gs_gridData (fetchGridData users_answer failed_query grid_stale) = gs_gridData grid_stale
   \<and> fetchCalendarData failed_query calendar_start = calendar_start\<lparr>loading := False\<rparr>
   \<and> calendarData (fetchCalendarData failed_query calendar_start) = []"
  using failed_fetch_keeps_data [of users_answer failed_query grid_stale failed_query calendar_start]
  by (simp add: failed_query_def calendar_start_def grid_stale_def)

text \<open>
  Claim C9 as stated fails: the state after a failed fetch is not always the state before
  it. A grid that shows January when the month on display has become February has the
  columns of February after the failed fetch, and a calendar that was loading is no
  longer loading.
\<close>

theorem failed_fetch_state_counterexample:
  "q_error (failed_query :: absensi_row list query_result) \<noteq> None
   \<and> fetchGridData users_answer failed_query grid_stale \<noteq> grid_stale
   \<and> gs_workingDays grid_stale = workingDaysInMonth january_1970
   \<and> gs_workingDays (fetchGridData users_answer failed_query grid_stale)
       = workingDaysInMonth february_1970
   \<and> workingDaysInMonth january_1970 \<noteq> workingDaysInMonth february_1970
   \<and> loading calendar_start
   \<and> \<not> loading (fetchCalendarData failed_query calendar_start)"
proof -
  have wd: "workingDaysInMonth january_1970 \<noteq> workingDaysInMonth february_1970"
    by (simp add: workingDaysInMonth_january_1970 workingDaysInMonth_february_1970)
  have g: "gs_workingDays (fetchGridData users_answer failed_query grid_stale)
             = workingDaysInMonth february_1970"
    by (simp add: fetchGridData_def failed_query_def users_answer_def grid_stale_def Let_def)
  have "gs_workingDays grid_stale = workingDaysInMonth january_1970"
    by (simp add: grid_stale_def)
  with wd g have "fetchGridData users_answer failed_query grid_stale \<noteq> grid_stale"
    by metis
  then show ?thesis
    using wd g
    by (simp add: failed_query_def calendar_start_def grid_stale_def fetchCalendarData_def Let_def)
qed

section \<open>Rows without a shift\<close>

text \<open>
  Claim C4 as stated fails on a day whose only row has no shift, clocked in at 09:00 and
  out at 17:00: the span is 8 hours, and the day has 0 actual hours, 0 overtime hours and
  the classification complete. The actual hours of a row are added inside the test for
  its shift.
\<close>

theorem no_shift_day_counterexample:
  "shift row_no_shift = None
   \<and> dayAttendanceOn 5 [row_no_shift] = [row_no_shift]
   \<and> calculateHoursDifference (format_HHmm (stamp 5 9 0)) (format_HHmm (stamp 5 17 0)) = 8
   \<and> actualHours (processDay [row_no_shift] 5) = 0
   \<and> overtimeHours (processDay [row_no_shift] 5) = 0
   \<and> overtimeHours (processDay [row_no_shift] 5) \<noteq> 8
   \<and> status (processDay [row_no_shift] 5) = Complete
   \<and> status (processDay [row_no_shift] 5) \<noteq> Overtime"
  by (simp add: processDay_def eval_defs example_defs)

text \<open>
  Claim C4, as amended. A row without a shift adds 0 to the expected hours and 0 to the
  actual hours. A day whose rows all lack a shift has 0 expected, actual, missing and
  overtime hours, and is classified complete when it has a row.
\<close>

theorem no_shift_rows_add_nothing:
  "(shift r = None \<longrightarrow>
       recordExpected r = 0 \<and> recordActual r = 0 \<and> addRecordHours r (e, a) = (e, a))
   \<and> ((\<forall>r \<in> set (dayAttendanceOn d attendanceData). shift r = None) \<longrightarrow>
         expectedHours (processDay attendanceData d) = 0
       \<and> actualHours (processDay attendanceData d) = 0
       \<and> missingHours (processDay attendanceData d) = 0
       \<and> overtimeHours (processDay attendanceData d) = 0
       \<and> status (processDay attendanceData d)
           = (if dayAttendanceOn d attendanceData = [] then NoAttendance else Complete))"
proof -
  have z: "sum_list (map recordExpected rs) = 0 \<and> sum_list (map recordActual rs) = 0"
    if "\<forall>r \<in> set rs. shift r = None" for rs
    using that by (induction rs) (simp_all add: recordExpected_no_shift recordActual_no_shift)
  show ?thesis
    by (auto simp: addRecordHours_contrib recordExpected_no_shift recordActual_no_shift
        processDay_fields Let_def z Math_max0_def round2_zero)
qed

theorem no_shift_rows_add_nothing_witness:
  "shift row_no_shift = None
   \<and> map shift (dayAttendanceOn 5 [row_no_shift]) = [None]
   \<and> dayAttendanceOn 5 [row_no_shift] \<noteq> []
   \<and> addRecordHours row_no_shift (0, 0) = (0, 0)
   \<and> expectedHours (processDay [row_no_shift] 5) = 0
   \<and> overtimeHours (processDay [row_no_shift] 5) = 0
   \<and> status (processDay [row_no_shift] 5) = Complete"
  using no_shift_rows_add_nothing [of row_no_shift 0 0 5 "[row_no_shift]"]
  by (simp add: eval_defs example_defs)


end
